theory Spec2Isabelle
  imports Main
begin

section \<open>JavaScript strings and the string helpers of the client\<close>

text \<open>
  A JavaScript string is a sequence of UTF-16 code units. The client's regular
  expressions, \<open>trim\<close> and \<open>toUpperCase\<close> work on code units, and the badge labels
  contain characters outside ASCII, so strings are modelled as lists of code units.
  \<open>lit\<close> turns an ASCII literal of the source into its code units.
\<close>

type_synonym jsstring = "int list"

definition lit :: "string \<Rightarrow> jsstring" where
  "lit s = map of_char s"

text \<open>Truthiness of a string: only the empty string is falsy.\<close>

definition truthy_str :: "jsstring \<Rightarrow> bool" where
  "truthy_str s = (s \<noteq> [])"

text \<open>\<open>x || d\<close> and \<open>x ?? d\<close> for a string-valued property that may be absent.\<close>

definition or_else :: "jsstring option \<Rightarrow> jsstring \<Rightarrow> jsstring" where
  "or_else x d = (case x of None \<Rightarrow> d | Some v \<Rightarrow> if truthy_str v then v else d)"

definition nullish :: "'a option \<Rightarrow> 'a \<Rightarrow> 'a" where
  "nullish x d = (case x of None \<Rightarrow> d | Some v \<Rightarrow> v)"

text \<open>
  \<open>x ?? d\<close> for a property of which \<open>null\<close> and absent are kept apart, because one
  of the scripts uses it without a guard and the two then behave differently.
\<close>

datatype 'a property = Absent | Null | Has 'a

definition coalesce :: "'a property \<Rightarrow> 'a \<Rightarrow> 'a" where
  "coalesce x d = (case x of Absent \<Rightarrow> d | Null \<Rightarrow> d | Has v \<Rightarrow> v)"


fun dec_digits :: "nat \<Rightarrow> jsstring" where
  "dec_digits n = (if n < 10 then [48 + int n] else dec_digits (n div 10) @ [48 + int (n mod 10)])"

declare dec_digits.simps [simp del]

definition num_str :: "int \<Rightarrow> jsstring" where
  "num_str i = (if i < 0 then 45 # dec_digits (nat (- i)) else dec_digits (nat i))"

text \<open>The remainder operator \<open>%\<close> of JavaScript takes the sign of the dividend.\<close>

definition js_rem :: "int \<Rightarrow> int \<Rightarrow> int" where
  "js_rem a b = sgn a * (\<bar>a\<bar> mod \<bar>b\<bar>)"

text \<open>
  Assigning to \<open>style.width\<close>. The scripts assign a decimal integer or \<open>NaN\<close> followed
  by \<open>%\<close>. Of these strings the \<open>width\<close> property accepts the ones made of digits and
  the final \<open>%\<close>; a negative percentage and \<open>NaN%\<close> are not valid, and an assignment
  of a value that is not valid leaves the width as it was.
\<close>

definition digit :: "int \<Rightarrow> bool" where
  "digit c = (48 \<le> c \<and> c \<le> 57)"

definition valid_width :: "jsstring \<Rightarrow> bool" where
  "valid_width v =
     (case rev v of
        [] \<Rightarrow> False
      | c # ds \<Rightarrow> c = 37 \<and> ds \<noteq> [] \<and> list_all digit ds)"

definition style_width :: "jsstring \<Rightarrow> jsstring \<Rightarrow> jsstring" where
  "style_width v old = (if valid_width v then v else old)"

text \<open>
  \<open>String.prototype.trim\<close> removes the WhiteSpace and LineTerminator code units of
  ECMAScript from both ends.
\<close>

definition js_whitespace :: "int \<Rightarrow> bool" where
  "js_whitespace c =
     (c = 9 \<or> c = 10 \<or> c = 11 \<or> c = 12 \<or> c = 13 \<or> c = 32 \<or> c = 160 \<or> c = 5760 \<or>
      (8192 \<le> c \<and> c \<le> 8202) \<or> c = 8232 \<or> c = 8233 \<or> c = 8239 \<or> c = 8287 \<or>
      c = 12288 \<or> c = 65279)"

definition trim :: "jsstring \<Rightarrow> jsstring" where
  "trim s = rev (dropWhile js_whitespace (rev (dropWhile js_whitespace s)))"

text \<open>
  \<open>escapeHtml\<close>: \<open>(s ?? "").replace(/[&<>"']/g, m => table[m])\<close>.
  The five characters are \<open>&\<close> (38), \<open><\<close> (60), \<open>>\<close> (62), the double quote (34) and
  the apostrophe (39).
\<close>

definition escape_char :: "int \<Rightarrow> jsstring" where
  "escape_char c =
     (if c = 38 then lit ''&amp;''
      else if c = 60 then lit ''&lt;''
      else if c = 62 then lit ''&gt;''
      else if c = 34 then lit ''&quot;''
      else if c = 39 then lit ''&#39;''
      else [c])"

definition escapeHtml :: "jsstring \<Rightarrow> jsstring" where
  "escapeHtml s = concat (map escape_char s)"

section \<open>Badge labels\<close>

text \<open>The regular-expression class \<open>\w\<close>: \<open>[A-Za-z0-9_]\<close>.\<close>

definition word_char :: "int \<Rightarrow> bool" where
  "word_char c = ((48 \<le> c \<and> c \<le> 57) \<or> (65 \<le> c \<and> c \<le> 90) \<or> c = 95 \<or> (97 \<le> c \<and> c \<le> 122))"

text \<open>\<open>toUpperCase\<close> on a single code unit matched by \<open>\w\<close>.\<close>

definition toUpperCase :: "int \<Rightarrow> int" where
  "toUpperCase c = (if 97 \<le> c \<and> c \<le> 122 then c - 32 else c)"

text \<open>\<open>.replace(/_/g, " ")\<close>\<close>

definition replace_underscores :: "jsstring \<Rightarrow> jsstring" where
  "replace_underscores s = map (\<lambda>c. if c = 95 then 32 else c) s"

text \<open>
  \<open>.replace(/\b\w/g, m => m.toUpperCase())\<close>: a word character is replaced when a
  word boundary precedes it, that is when it is the first code unit or follows a code
  unit that is not a word character. The flag says whether the previous code unit is a
  word character.
\<close>

fun upcase_word_starts :: "bool \<Rightarrow> jsstring \<Rightarrow> jsstring" where
  "upcase_word_starts prev [] = []"
| "upcase_word_starts prev (c # cs) =
     (if word_char c \<and> \<not> prev then toUpperCase c else c) # upcase_word_starts (word_char c) cs"

definition title_case :: "jsstring \<Rightarrow> jsstring" where
  "title_case ident = upcase_word_starts False (replace_underscores ident)"

text \<open>The table \<open>BADGE_LABELS\<close>, an object literal with five own properties.\<close>

definition BADGE_LABELS :: "(jsstring \<times> jsstring) list" where
  "BADGE_LABELS =
     [(lit ''badge_first_connection'', [55357, 57072, 65039] @ lit '' First Contact''),
      (lit ''badge_week_streak_3'', [55357, 56613] @ lit '' 3-Day Streak''),
      (lit ''badge_resource_share'', [55356, 57217] @ lit '' Reciprocity Rookie''),
      (lit ''badge_coffee_chat'', [9749] @ lit '' Coffee Challenger''),
      (lit ''badge_outreach_pro'', [55357, 56545] @ lit '' Outreach Pro'')]"

text \<open>
  \<open>BADGE_LABELS\<close> is a plain object, so \<open>BADGE_LABELS[id]\<close> also finds the properties
  it inherits from \<open>Object.prototype\<close>; each of them is a function or an object.
\<close>

definition Object_prototype :: "jsstring list" where
  "Object_prototype =
     [lit ''constructor'', lit ''hasOwnProperty'', lit ''isPrototypeOf'',
      lit ''propertyIsEnumerable'', lit ''toLocaleString'', lit ''toString'',
      lit ''valueOf'', lit ''__proto__'', lit ''__defineGetter__'',
      lit ''__defineSetter__'', lit ''__lookupGetter__'', lit ''__lookupSetter__'']"

datatype label = Text jsstring | Inherited jsstring | Undefined

definition lookup_label :: "jsstring \<Rightarrow> label" where
  "lookup_label ident =
     (case map_of BADGE_LABELS ident of
        Some l \<Rightarrow> Text l
      | None \<Rightarrow> if ident \<in> set Object_prototype then Inherited ident else Undefined)"

fun truthy_label :: "label \<Rightarrow> bool" where
  "truthy_label (Text s) = truthy_str s"
| "truthy_label (Inherited _) = True"
| "truthy_label Undefined = False"

definition prettyBadge :: "jsstring \<Rightarrow> label" where
  "prettyBadge ident =
     (if truthy_label (lookup_label ident) then lookup_label ident
      else Text (title_case ident))"

section \<open>Server payloads\<close>

text \<open>
  The result of \<open>await fetch(...)\<close> followed by \<open>await res.json()\<close>: \<open>Rejected\<close> when
  either promise rejects (no response, or a body that is not JSON), otherwise the
  flag \<open>res.ok\<close> and the parsed body. A body is \<open>None\<close> when it is the JSON value
  \<open>null\<close>. A property of type \<open>option\<close> is \<open>None\<close> when it is absent or \<open>null\<close>:
  every use of it treats the two alike (\<open>??\<close>, \<open>||\<close>, \<open>&&\<close>, \<open>?.\<close>). A property of
  type \<open>property\<close> keeps them apart. Properties that are present have the types of the
  server's contract.
\<close>

datatype 'a fetched = Rejected | Got bool 'a

record task =
  task_id :: jsstring
  description :: jsstring
  task_points :: int
  category :: jsstring
  completed :: bool

text \<open>The object sent by \<open>/get_state\<close> and \<open>/complete_task\<close> (with \<open>error\<close> on refusal).\<close>

record progress =
  points :: "int property"
  streak :: "int property"
  level :: "jsstring option"
  badges :: "jsstring list option"
  tasks :: "task list option"
  error :: "jsstring option"

record standing =
  rank :: "int option"
  username :: "jsstring option"
  standing_points :: "int option"

record score_reply =
  earned :: "int property"
  tips :: "jsstring list option"

record coach_reply =
  reply :: "jsstring option"

text \<open>
  \<open>openQuest\<close> is local to \<open>wireQuests\<close> and is bound to four buttons, each with a
  constant type; \<open>currentQuest\<close> starts as \<open>{ type: "outreach", choice: "" }\<close>.
\<close>

datatype quest_type = outreach | coffee | followup | reciprocity

fun type_name :: "quest_type \<Rightarrow> jsstring" where
  "type_name outreach = lit ''outreach''"
| "type_name coffee = lit ''coffee''"
| "type_name followup = lit ''followup''"
| "type_name reciprocity = lit ''reciprocity''"

datatype payload =
    Task_id jsstring
  | Quest_type jsstring
  | Answer jsstring jsstring jsstring
  | Chat_text jsstring

datatype request = GET jsstring | POST jsstring payload

section \<open>The page of gamescript.js\<close>

text \<open>
  The state the script reads and writes: the elements it looks up by id (\<open>None\<close> when the
  page has no such element), the module variable \<open>currentQuest\<close>, and what the script
  sends out: alerts, console lines and requests, each in the order of the calls.
  A task row and a leaderboard row are kept as the holes of their templates; a rendered
  badge is the value assigned to the chip's \<open>textContent\<close>; a coach message is the
  \<open>innerHTML\<close> of its div. \<open>timeline\<close> records, in the order of the calls, each
  message appended to the coach feed and each request sent: it is what relates the
  moment a message becomes visible to the moment a request leaves.
\<close>

datatype row_action = Completed | Complete_button jsstring

record row =
  row_description :: jsstring
  row_xp :: int
  row_action :: row_action

record board_row =
  me :: bool
  rank_cell :: "int option"
  name_cell :: jsstring
  pts_cell :: int

datatype effect = Appended jsstring | Sent request

record pill =
  data_choice :: "jsstring option"
  active :: bool
  aria_pressed :: jsstring

record quest =
  qtype :: quest_type
  choice :: jsstring

record page =
  points_el :: "jsstring option"
  streak_el :: "jsstring option"
  level_name_el :: "jsstring option"
  xp_bar :: "jsstring option"
  badges_el :: "label list option"
  daily_list :: "row list option"
  weekly_list :: "row list option"
  leaderboard_body :: "board_row list option"
  quest_modal :: "jsstring option"
  quest_title :: "jsstring option"
  quest_prompt :: "jsstring option"
  quest_text :: "jsstring option"
  score_result :: "jsstring option"
  followup_choices :: "jsstring option"
  pills :: "pill list"
  currentQuest :: quest
  coach_modal :: "jsstring option"
  coach_feed :: "jsstring list option"
  coach_input :: "jsstring option"
  coach_status :: "jsstring option"
  alerts :: "jsstring list"
  console :: "jsstring list"
  requests :: "request list"
  timeline :: "effect list"

definition fetch :: "request \<Rightarrow> page \<Rightarrow> page" where
  "fetch r s = s\<lparr>requests := requests s @ [r], timeline := timeline s @ [Sent r]\<rparr>"

definition alert :: "jsstring \<Rightarrow> page \<Rightarrow> page" where
  "alert m s = s\<lparr>alerts := alerts s @ [m]\<rparr>"

definition console_log :: "jsstring \<Rightarrow> page \<Rightarrow> page" where
  "console_log m s = s\<lparr>console := console s @ [m]\<rparr>"

text \<open>Assigning to a property of an element that was found.\<close>

definition assign :: "'a \<Rightarrow> 'a option \<Rightarrow> 'a option" where
  "assign v el = map_option (\<lambda>_. v) el"

subsection \<open>Leaderboard\<close>

definition board_row_of :: "standing \<Rightarrow> board_row" where
  "board_row_of r =
     \<lparr>me = (username r = Some (lit ''Player-001'')),
      rank_cell = rank r,
      name_cell = nullish (username r) [],
      pts_cell = nullish (standing_points r) 0\<rparr>"

definition no_data_row :: board_row where
  "no_data_row = \<lparr>me = False, rank_cell = None, name_cell = lit ''No data yet'', pts_cell = 0\<rparr>"

text \<open>The body of \<open>/leaderboard\<close> is \<open>None\<close> when it is not an array.\<close>

definition loadLeaderboard :: "page \<Rightarrow> page" where
  "loadLeaderboard s = fetch (GET (lit ''/leaderboard'')) s"

definition loadLeaderboard_then :: "standing list option fetched \<Rightarrow> page \<Rightarrow> page" where
  "loadLeaderboard_then r s =
     (case r of
        Rejected \<Rightarrow> console_log (lit ''[game] loadLeaderboard error:'') s
      | Got ok rows \<Rightarrow>
          if leaderboard_body s = None then console_log (lit ''[game] missing #leaderboard-body'') s
          else
            (case rows of
               None \<Rightarrow> s\<lparr>leaderboard_body := Some [no_data_row]\<rparr>
             | Some [] \<Rightarrow> s\<lparr>leaderboard_body := Some [no_data_row]\<rparr>
             | Some rs \<Rightarrow> s\<lparr>leaderboard_body := Some (map board_row_of rs)\<rparr>))"

subsection \<open>State and tasks\<close>

text \<open>\<open>byId\<close> logs a missing element; \<open>setText\<close> and \<open>setWidth\<close> assign when it is found.\<close>

definition missing :: "string \<Rightarrow> page \<Rightarrow> page" where
  "missing ident s = console_log (lit ''[game] missing #'' @ lit ident) s"

definition set_points :: "jsstring \<Rightarrow> page \<Rightarrow> page" where
  "set_points v s = (if points_el s = None then missing ''points'' s else s\<lparr>points_el := Some v\<rparr>)"

definition set_streak :: "jsstring \<Rightarrow> page \<Rightarrow> page" where
  "set_streak v s = (if streak_el s = None then missing ''streak'' s else s\<lparr>streak_el := Some v\<rparr>)"

definition set_level_name :: "jsstring \<Rightarrow> page \<Rightarrow> page" where
  "set_level_name v s =
     (if level_name_el s = None then missing ''level-name'' s else s\<lparr>level_name_el := Some v\<rparr>)"

definition set_xp_bar :: "jsstring \<Rightarrow> page \<Rightarrow> page" where
  "set_xp_bar v s =
     (if xp_bar s = None then missing ''xp-bar'' s
      else s\<lparr>xp_bar := map_option (style_width v) (xp_bar s)\<rparr>)"

text \<open>\<open>Math.min(100, (data.points ?? 0) % 100)\<close>\<close>

definition xp_percent :: "int property \<Rightarrow> int" where
  "xp_percent p = min 100 (js_rem (coalesce p 0) 100)"

definition task_row :: "task \<Rightarrow> row" where
  "task_row t =
     \<lparr>row_description = description t, row_xp = task_points t,
      row_action = (if completed t then Completed else Complete_button (task_id t))\<rparr>"

definition of_category :: "string \<Rightarrow> progress \<Rightarrow> task list" where
  "of_category c d = filter (\<lambda>t. category t = lit c) (nullish (tasks d) [])"

definition render_badges :: "progress \<Rightarrow> page \<Rightarrow> page" where
  "render_badges d s = s\<lparr>badges_el := assign (map prettyBadge (nullish (badges d) [])) (badges_el s)\<rparr>"

definition render_daily :: "task list \<Rightarrow> page \<Rightarrow> page" where
  "render_daily ts s =
     (if daily_list s = None then console_log (lit ''[game] missing container daily-list'') s
      else s\<lparr>daily_list := Some (map task_row ts)\<rparr>)"

definition render_weekly :: "task list \<Rightarrow> page \<Rightarrow> page" where
  "render_weekly ts s =
     (if weekly_list s = None then console_log (lit ''[game] missing container weekly-list'') s
      else s\<lparr>weekly_list := Some (map task_row ts)\<rparr>)"

definition show_state :: "progress \<Rightarrow> page \<Rightarrow> page" where
  "show_state d s =
     render_weekly (of_category ''weekly'' d)
       (render_daily (of_category ''daily'' d)
         (render_badges d
           (set_xp_bar (num_str (xp_percent (points d)) @ lit ''%'')
             (set_level_name (nullish (level d) (lit ''Rookie Connector''))
               (set_streak (num_str (coalesce (streak d) 0))
                 (set_points (num_str (coalesce (points d) 0)) s))))))"

definition loadState :: "page \<Rightarrow> page" where
  "loadState s = fetch (GET (lit ''/get_state'')) s"

text \<open>A \<open>null\<close> body makes \<open>data.points\<close> throw inside the \<open>try\<close>.\<close>

definition loadState_then :: "progress option fetched \<Rightarrow> page \<Rightarrow> page" where
  "loadState_then r s =
     (case r of
        Rejected \<Rightarrow> console_log (lit ''[game] loadState error:'') s
      | Got ok None \<Rightarrow> console_log (lit ''[game] loadState error:'') s
      | Got ok (Some d) \<Rightarrow> show_state d s)"

text \<open>\<open>Promise.all([loadState(), loadLeaderboard()])\<close>: both requests go out, in this order.\<close>

definition refresh :: "page \<Rightarrow> page" where
  "refresh s = loadLeaderboard (loadState s)"

definition completeTask :: "jsstring \<Rightarrow> page \<Rightarrow> page" where
  "completeTask taskId s = fetch (POST (lit ''/complete_task'') (Task_id taskId)) s"

definition completeTask_then :: "progress option fetched \<Rightarrow> page \<Rightarrow> page" where
  "completeTask_then r s =
     (case r of
        Rejected \<Rightarrow> console_log (lit ''[game] completeTask error:'') s
      | Got ok data \<Rightarrow>
          if \<not> ok then
            (case data of
               None \<Rightarrow> console_log (lit ''[game] completeTask error:'') s
             | Some d \<Rightarrow> alert (or_else (error d) (lit ''Could not complete task.'')) s)
          else refresh s)"

subsection \<open>Quests\<close>

definition ensureModal :: "page \<Rightarrow> bool" where
  "ensureModal s =
     (quest_modal s \<noteq> None \<and> quest_title s \<noteq> None \<and> quest_prompt s \<noteq> None \<and>
      quest_text s \<noteq> None \<and> score_result s \<noteq> None \<and> followup_choices s \<noteq> None)"

text \<open>What \<open>ensureModal\<close> does before it returns \<open>false\<close>.\<close>

definition modal_missing :: "page \<Rightarrow> page" where
  "modal_missing s =
     alert (lit ''Quest UI is missing in HTML. Add the Quest Modal block with required IDs.'')
       (console_log (lit ''[game] quest modal pieces missing'') s)"

fun quest_heading :: "quest_type \<Rightarrow> jsstring" where
  "quest_heading outreach = lit ''Outreach Craft''"
| "quest_heading coffee = lit ''Coffee-Chat Prep''"
| "quest_heading followup = lit ''Follow-Up Timing''"
| "quest_heading reciprocity = lit ''Reciprocity Builder''"

text \<open>\<open>"Loading scenario\<dots>"\<close>, ending in U+2026.\<close>

definition loading_prompt :: jsstring where
  "loading_prompt = lit ''Loading scenario'' @ [8230]"

definition fallback_prompt :: jsstring where
  "fallback_prompt = lit ''Write your answer below.''"

definition unpress :: "pill \<Rightarrow> pill" where
  "unpress b = b\<lparr>active := False, aria_pressed := lit ''false''\<rparr>"

definition openQuest :: "quest_type \<Rightarrow> page \<Rightarrow> page" where
  "openQuest t s =
     (if \<not> ensureModal s then modal_missing s
      else fetch (POST (lit ''/quest/start'') (Quest_type (type_name t)))
        (s\<lparr>currentQuest := \<lparr>qtype = t, choice = []\<rparr>,
           quest_modal := Some (lit ''block''),
           quest_title := Some (quest_heading t),
           quest_prompt := Some loading_prompt,
           quest_text := Some [],
           score_result := Some [],
           followup_choices := Some (if t = followup then lit ''flex'' else lit ''none''),
           pills := map unpress (pills s)\<rparr>))"

text \<open>The body of \<open>/quest/start\<close> is reduced to \<open>j?.scenario?.prompt\<close>.\<close>

definition openQuest_then :: "jsstring option fetched \<Rightarrow> page \<Rightarrow> page" where
  "openQuest_then r s =
     (case r of
        Rejected \<Rightarrow> console_log (lit ''[game] /quest/start failed; using fallback'')
                     (s\<lparr>quest_prompt := assign fallback_prompt (quest_prompt s)\<rparr>)
      | Got ok p \<Rightarrow> s\<lparr>quest_prompt := assign (or_else p fallback_prompt) (quest_prompt s)\<rparr>)"

definition close_quest :: "page \<Rightarrow> page" where
  "close_quest s = s\<lparr>quest_modal := assign (lit ''none'') (quest_modal s)\<rparr>"

text \<open>
  The click handler of the \<open>i\<close>-th element of \<open>followBtns\<close>; \<open>b === btn\<close> compares
  elements, so the pills are told apart by their position.
\<close>

definition press :: "nat \<Rightarrow> nat \<times> pill \<Rightarrow> pill" where
  "press i jb =
     (snd jb)\<lparr>active := (fst jb = i),
              aria_pressed := (if fst jb = i then lit ''true'' else lit ''false'')\<rparr>"

definition pill_click :: "nat \<Rightarrow> page \<Rightarrow> page" where
  "pill_click i s =
     (if i < length (pills s) then
        s\<lparr>currentQuest := (currentQuest s)\<lparr>choice := or_else (data_choice (pills s ! i)) []\<rparr>,
          pills := map (press i) (enumerate 0 (pills s))\<rparr>
      else s)"

definition score_quest :: "page \<Rightarrow> page" where
  "score_quest s =
     (if \<not> ensureModal s then modal_missing s
      else fetch (POST (lit ''/quest/score'')
                   (Answer (type_name (qtype (currentQuest s)))
                           (nullish (quest_text s) [])
                           (choice (currentQuest s)))) s)"

text \<open>
  \<open>`+${j.earned} XP${(j.tips && j.tips.length) ? " \<bullet> " + j.tips[0] : ""}`\<close>;
  the separator is a space, U+2022 and a space.
\<close>

definition score_summary :: "score_reply \<Rightarrow> jsstring" where
  "score_summary j =
     lit ''+'' @
     (case earned j of Absent \<Rightarrow> lit ''undefined'' | Null \<Rightarrow> lit ''null'' | Has n \<Rightarrow> num_str n) @
     lit '' XP'' @
     (case tips j of
        None \<Rightarrow> []
      | Some [] \<Rightarrow> []
      | Some (t # _) \<Rightarrow> [32, 8226, 32] @ t)"

definition score_failed :: "page \<Rightarrow> page" where
  "score_failed s =
     (console_log (lit ''[game] /quest/score failed'') s)
       \<lparr>score_result := assign (lit ''Could not score. Try again.'') (score_result s)\<rparr>"

text \<open>A \<open>null\<close> body makes \<open>j.earned\<close> throw inside the \<open>try\<close>; \<open>res.ok\<close> is not read.\<close>

definition score_quest_then :: "score_reply option fetched \<Rightarrow> page \<Rightarrow> page" where
  "score_quest_then r s =
     (case r of
        Rejected \<Rightarrow> score_failed s
      | Got ok None \<Rightarrow> score_failed s
      | Got ok (Some j) \<Rightarrow>
          refresh (s\<lparr>score_result := assign (score_summary j) (score_result s)\<rparr>))"

subsection \<open>Coach chat\<close>

datatype role = user | assistant

definition message :: "role \<Rightarrow> jsstring \<Rightarrow> jsstring" where
  "message r t =
     (if r = user then lit ''<b>You:</b> '' else lit ''<b>Coach:</b> '') @ escapeHtml t"

text \<open>\<open>push\<close> is reached only after the handler has found the feed.\<close>

definition push :: "role \<Rightarrow> jsstring \<Rightarrow> page \<Rightarrow> page" where
  "push r t s =
     (case coach_feed s of
        None \<Rightarrow> s
      | Some f \<Rightarrow> s\<lparr>coach_feed := Some (f @ [message r t]),
                     timeline := timeline s @ [Appended (message r t)]\<rparr>)"

definition open_coach :: "page \<Rightarrow> page" where
  "open_coach s =
     (if coach_modal s = None \<or> coach_feed s = None \<or> coach_input s = None \<or> coach_status s = None
      then s
      else s\<lparr>coach_feed := Some [], coach_input := Some [], coach_status := Some [],
             coach_modal := Some (lit ''block'')\<rparr>)"

definition coach_close :: "page \<Rightarrow> page" where
  "coach_close s = s\<lparr>coach_modal := assign (lit ''none'') (coach_modal s)\<rparr>"

text \<open>\<open>"Thinking\<dots>"\<close>, ending in U+2026.\<close>

definition thinking :: jsstring where
  "thinking = lit ''Thinking'' @ [8230]"

text \<open>
  The handler up to its first \<open>await\<close>, split where \<open>fetch\<close> is called: \<open>coach_compose\<close> is
  everything the handler does before the call.
\<close>

definition coach_compose :: "jsstring \<Rightarrow> page \<Rightarrow> page" where
  "coach_compose txt s = (push user txt s)\<lparr>coach_status := Some thinking, coach_input := Some []\<rparr>"

definition coach_send :: "page \<Rightarrow> page" where
  "coach_send s =
     (if coach_feed s = None \<or> coach_input s = None \<or> coach_status s = None then s
      else let txt = trim (nullish (coach_input s) []) in
        if \<not> truthy_str txt then s
        else fetch (POST (lit ''/coach/chat'') (Chat_text txt)) (coach_compose txt s))"

text \<open>A \<open>null\<close> body makes \<open>j.reply\<close> throw; the \<open>finally\<close> block runs on every path.\<close>

definition coach_send_then :: "coach_reply option fetched \<Rightarrow> page \<Rightarrow> page" where
  "coach_send_then r s =
     (let s' = (case r of
                  Rejected \<Rightarrow> push assistant (lit ''I hit a snag. Try again.'') s
                | Got ok None \<Rightarrow> push assistant (lit ''I hit a snag. Try again.'') s
                | Got ok (Some j) \<Rightarrow> push assistant (or_else (reply j) (lit ''Sorry, no reply.'')) s)
      in s'\<lparr>coach_status := assign [] (coach_status s')\<rparr>)"

subsection \<open>Events\<close>

text \<open>
  The script is driven by clicks and by the responses to the requests it has sent;
  between two of them nothing runs. \<open>step\<close> runs the handler of one event to its next
  \<open>await\<close> or to its end. The page does not record which requests are pending, so a
  response is accepted on any page: every interleaving of the handlers is a run.
\<close>

datatype event =
    Start_quest quest_type
  | Close_quest
  | Pill nat
  | Score_quest
  | Open_coach
  | Coach_close
  | Coach_send
  | Complete jsstring
  | Completed_task "progress option fetched"
  | State_loaded "progress option fetched"
  | Leaderboard_loaded "standing list option fetched"
  | Scenario "jsstring option fetched"
  | Scored "score_reply option fetched"
  | Coach_replied "coach_reply option fetched"

fun step :: "event \<Rightarrow> page \<Rightarrow> page" where
  "step (Start_quest t) s = openQuest t s"
| "step Close_quest s = close_quest s"
| "step (Pill i) s = pill_click i s"
| "step Score_quest s = score_quest s"
| "step Open_coach s = open_coach s"
| "step Coach_close s = coach_close s"
| "step Coach_send s = coach_send s"
| "step (Complete taskId) s = completeTask taskId s"
| "step (Completed_task r) s = completeTask_then r s"
| "step (State_loaded r) s = loadState_then r s"
| "step (Leaderboard_loaded r) s = loadLeaderboard_then r s"
| "step (Scenario r) s = openQuest_then r s"
| "step (Scored r) s = score_quest_then r s"
| "step (Coach_replied r) s = coach_send_then r s"

definition run :: "event list \<Rightarrow> page \<Rightarrow> page" where
  "run es s = fold step es s"

section \<open>The page of networkinggamescript.js\<close>

text \<open>
  The second script keeps its elements in constants and uses them unguarded, so they
  are taken to exist. It has no \<open>try\<close>: a rejected promise or a \<open>TypeError\<close> ends the
  handler as an unhandled rejection, counted in \<open>ng_uncaught\<close>. The points and the
  streak are used as they come: \<open>undefined % 100\<close> is \<open>NaN\<close> and \<open>null % 100\<close> is 0;
  \<open>undefined + " Days"\<close> and \<open>null + " Days"\<close> spell the word out; assigning \<open>undefined\<close>
  or \<open>null\<close> to \<open>textContent\<close> empties the element.
\<close>

record ng_page =
  pointsEl :: jsstring
  streakEl :: jsstring
  barEl_width :: jsstring
  barEl_text :: jsstring
  badgesEl :: "jsstring list"
  dailyListContainer :: "row list"
  weeklyListContainer :: "row list"
  ng_alerts :: "jsstring list"
  ng_requests :: "request list"
  ng_uncaught :: nat

text \<open>\<open>data.points % 100\<close> as it is concatenated into a string.\<close>

definition pct :: "int property \<Rightarrow> jsstring" where
  "pct p =
     (case p of
        Absent \<Rightarrow> lit ''NaN''
      | Null \<Rightarrow> num_str 0
      | Has n \<Rightarrow> num_str (js_rem n 100))"

definition renderState :: "progress \<Rightarrow> ng_page \<Rightarrow> ng_page" where
  "renderState d s =
     s\<lparr>pointsEl := (case points d of Absent \<Rightarrow> [] | Null \<Rightarrow> [] | Has n \<Rightarrow> num_str n),
       streakEl :=
         (case streak d of
            Absent \<Rightarrow> lit ''undefined''
          | Null \<Rightarrow> lit ''null''
          | Has n \<Rightarrow> num_str n) @ lit '' Days'',
       barEl_width := style_width (pct (points d) @ lit ''%'') (barEl_width s),
       barEl_text := pct (points d) @ lit ''% to Next Level'',
       badgesEl := nullish (badges d) [],
       dailyListContainer := map task_row (of_category ''daily'' d),
       weeklyListContainer := map task_row (of_category ''weekly'' d)\<rparr>"

definition ng_uncaught_rejection :: "ng_page \<Rightarrow> ng_page" where
  "ng_uncaught_rejection s = s\<lparr>ng_uncaught := Suc (ng_uncaught s)\<rparr>"

definition ng_loadState :: "ng_page \<Rightarrow> ng_page" where
  "ng_loadState s = s\<lparr>ng_requests := ng_requests s @ [GET (lit ''/get_state'')]\<rparr>"

definition ng_loadState_then :: "progress option fetched \<Rightarrow> ng_page \<Rightarrow> ng_page" where
  "ng_loadState_then r s =
     (case r of
        Rejected \<Rightarrow> ng_uncaught_rejection s
      | Got ok None \<Rightarrow> ng_uncaught_rejection s
      | Got ok (Some d) \<Rightarrow> renderState d s)"

definition ng_completeTask :: "jsstring \<Rightarrow> ng_page \<Rightarrow> ng_page" where
  "ng_completeTask taskId s =
     s\<lparr>ng_requests := ng_requests s @ [POST (lit ''/complete_task'') (Task_id taskId)]\<rparr>"

definition ng_completeTask_then :: "progress option fetched \<Rightarrow> ng_page \<Rightarrow> ng_page" where
  "ng_completeTask_then r s =
     (case r of
        Rejected \<Rightarrow> ng_uncaught_rejection s
      | Got ok None \<Rightarrow> ng_uncaught_rejection s
      | Got ok (Some d) \<Rightarrow>
          if ok then renderState d s
          else s\<lparr>ng_alerts := ng_alerts s @ [or_else (error d) (lit ''Could not complete task.'')]\<rparr>)"

section \<open>Sample pages and payloads\<close>

text \<open>
  A page on which every element exists, with the three follow-up pills named in the
  script's comment, after the quest modal has been closed; and a page for the second
  script.
\<close>

definition sample_pills :: "pill list" where
  "sample_pills =
     [\<lparr>data_choice = Some (lit ''Monday''), active = False, aria_pressed = lit ''false''\<rparr>,
      \<lparr>data_choice = Some (lit ''48h''), active = False, aria_pressed = lit ''false''\<rparr>,
      \<lparr>data_choice = Some (lit ''Early next week''), active = False, aria_pressed = lit ''false''\<rparr>]"

definition sample_page :: page where
  "sample_page =
     \<lparr>points_el = Some (lit ''0''), streak_el = Some (lit ''0''),
      level_name_el = Some (lit ''Rookie Connector''), xp_bar = Some (lit ''0%''),
      badges_el = Some [], daily_list = Some [], weekly_list = Some [],
      leaderboard_body = Some [no_data_row],
      quest_modal = Some (lit ''none''), quest_title = Some [], quest_prompt = Some [],
      quest_text = Some [], score_result = Some [], followup_choices = Some (lit ''none''),
      pills = sample_pills, currentQuest = \<lparr>qtype = outreach, choice = []\<rparr>,
      coach_modal = Some (lit ''none''), coach_feed = Some [], coach_input = Some [],
      coach_status = Some [], alerts = [], console = [], requests = [], timeline = []\<rparr>"

definition sample_ng_page :: ng_page where
  "sample_ng_page =
     \<lparr>pointsEl = lit ''0'', streakEl = lit ''0 Days'', barEl_width = lit ''0%'',
      barEl_text = lit ''0% to Next Level'', badgesEl = [], dailyListContainer = [],
      weeklyListContainer = [], ng_alerts = [], ng_requests = [], ng_uncaught = 0\<rparr>"

definition sample_task :: task where
  "sample_task =
     \<lparr>task_id = lit ''t1'', description = lit ''Send one outreach message'', task_points = 10,
      category = lit ''daily'', completed = True\<rparr>"

definition sample_progress :: progress where
  "sample_progress =
     \<lparr>points = Has 145, streak = Has 2, level = Some (lit ''Connector''),
      badges = Some [lit ''badge_first_connection''], tasks = Some [sample_task], error = None\<rparr>"

section \<open>The session status of the specification\<close>

text \<open>
  The script keeps no status variable. The status the specification speaks of is read
  off the page: no quest is open while the modal is not displayed; an open quest is
  loading while the prompt is the placeholder, and active afterwards. A score request
  in flight leaves no trace on the page, so there is no status for it.
\<close>

datatype status = Idle | Loading | Active

definition spec_status :: "page \<Rightarrow> status" where
  "spec_status s =
     (if quest_modal s = Some (lit ''block'') then
        (if quest_prompt s = Some loading_prompt then Loading else Active)
      else Idle)"

text \<open>A response to \<open>/quest/start\<close> that brings no scenario prompt the script can use.\<close>

definition no_scenario :: "jsstring option fetched \<Rightarrow> bool" where
  "no_scenario r = (case r of Rejected \<Rightarrow> True | Got ok p \<Rightarrow> or_else p [] = [])"

section \<open>Rendering the state\<close>

text \<open>Each setter, as one update of the page.\<close>

lemma set_points_upd:
  "set_points v s = s\<lparr>points_el := assign v (points_el s),
       console := console s @ (if points_el s = None then [lit ''[game] missing #'' @ lit ''points''] else [])\<rparr>"
  by (cases "points_el s") (simp_all add: set_points_def missing_def console_log_def assign_def)

lemma set_streak_upd:
  "set_streak v s = s\<lparr>streak_el := assign v (streak_el s),
       console := console s @ (if streak_el s = None then [lit ''[game] missing #'' @ lit ''streak''] else [])\<rparr>"
  by (cases "streak_el s") (simp_all add: set_streak_def missing_def console_log_def assign_def)

lemma set_level_name_upd:
  "set_level_name v s = s\<lparr>level_name_el := assign v (level_name_el s),
       console := console s @ (if level_name_el s = None then [lit ''[game] missing #'' @ lit ''level-name''] else [])\<rparr>"
  by (cases "level_name_el s") (simp_all add: set_level_name_def missing_def console_log_def assign_def)

lemma set_xp_bar_upd:
  "set_xp_bar v s = s\<lparr>xp_bar := map_option (style_width v) (xp_bar s),
       console := console s @ (if xp_bar s = None then [lit ''[game] missing #'' @ lit ''xp-bar''] else [])\<rparr>"
  by (cases "xp_bar s") (simp_all add: set_xp_bar_def missing_def console_log_def)

lemma render_daily_upd:
  "render_daily ts s = s\<lparr>daily_list := assign (map task_row ts) (daily_list s),
       console := console s @ (if daily_list s = None then [lit ''[game] missing container daily-list''] else [])\<rparr>"
  by (cases "daily_list s") (simp_all add: render_daily_def console_log_def assign_def)

lemma render_weekly_upd:
  "render_weekly ts s = s\<lparr>weekly_list := assign (map task_row ts) (weekly_list s),
       console := console s @ (if weekly_list s = None then [lit ''[game] missing container weekly-list''] else [])\<rparr>"
  by (cases "weekly_list s") (simp_all add: render_weekly_def console_log_def assign_def)

lemmas show_state_upd = show_state_def set_points_upd set_streak_upd set_level_name_upd
  set_xp_bar_upd render_badges_def render_daily_upd render_weekly_upd

text \<open>
  What \<open>show_state\<close> leaves in each element of the state view depends on the new
  state only, never on what the element held; the width of the bar is the exception
  when the new width is not valid.
\<close>

lemma show_state_view:
  "points_el (show_state d s) = assign (num_str (coalesce (points d) 0)) (points_el s)"
  "streak_el (show_state d s) = assign (num_str (coalesce (streak d) 0)) (streak_el s)"
  "level_name_el (show_state d s) = assign (nullish (level d) (lit ''Rookie Connector'')) (level_name_el s)"
  "xp_bar (show_state d s) =
     map_option (style_width (num_str (xp_percent (points d)) @ lit ''%'')) (xp_bar s)"
  "badges_el (show_state d s) = assign (map prettyBadge (nullish (badges d) [])) (badges_el s)"
  "daily_list (show_state d s) = assign (map task_row (of_category ''daily'' d)) (daily_list s)"
  "weekly_list (show_state d s) = assign (map task_row (of_category ''weekly'' d)) (weekly_list s)"
  by (simp_all add: show_state_upd)

lemma show_state_frame:
  "leaderboard_body (show_state d s) = leaderboard_body s"
  "quest_modal (show_state d s) = quest_modal s"
  "quest_title (show_state d s) = quest_title s"
  "quest_prompt (show_state d s) = quest_prompt s"
  "quest_text (show_state d s) = quest_text s"
  "score_result (show_state d s) = score_result s"
  "followup_choices (show_state d s) = followup_choices s"
  "pills (show_state d s) = pills s"
  "currentQuest (show_state d s) = currentQuest s"
  "coach_modal (show_state d s) = coach_modal s"
  "coach_feed (show_state d s) = coach_feed s"
  "coach_input (show_state d s) = coach_input s"
  "coach_status (show_state d s) = coach_status s"
  "alerts (show_state d s) = alerts s"
  "requests (show_state d s) = requests s"
  "timeline (show_state d s) = timeline s"
  by (simp_all add: show_state_upd)

section \<open>Progress to the next level\<close>

lemma js_rem_nonneg: "0 \<le> a \<Longrightarrow> js_rem a 100 = a mod 100"
  by (cases "a = 0") (simp_all add: js_rem_def)

lemma xp_percent_nonneg: "0 \<le> p \<Longrightarrow> xp_percent (Has p) = p mod 100"
  by (simp add: xp_percent_def coalesce_def js_rem_nonneg)

text \<open>The decimal digits of a number that is not negative, followed by \<open>%\<close>, are a valid width.\<close>

lemma digit_of: "k < 10 \<Longrightarrow> digit (48 + int k)"
  by (simp add: digit_def)

lemma dec_digits_digits: "dec_digits n \<noteq> [] \<and> list_all digit (dec_digits n)"
proof (induction n rule: dec_digits.induct)
  case (1 n)
  show ?case
  proof (cases "n < 10")
    case True
    then show ?thesis
      by (subst (1 2) dec_digits.simps) (simp add: digit_of)
  next
    case False
    have "n mod 10 < 10"
      by simp
    with False 1 show ?thesis
      by (subst (1 2) dec_digits.simps) (simp add: digit_of)
  qed
qed

lemma valid_width_percent: "0 \<le> n \<Longrightarrow> valid_width (num_str n @ lit ''%'')"
  using dec_digits_digits [of "nat n"]
  by (simp add: valid_width_def num_str_def lit_def split: list.splits)

lemma style_width_percent: "0 \<le> n \<Longrightarrow> style_width (num_str n @ lit ''%'') old = num_str n @ lit ''%''"
  by (simp add: style_width_def valid_width_percent)

text \<open>
  C7. For every points value \<open>p \<ge> 0\<close> the percentage shown is \<open>p mod 100\<close>, which lies
  between 0 and 99: it is the width of \<open>#xp-bar\<close> in gamescript.js (when the element
  exists), and the width and the label of the progress bar in networkinggamescript.js.
\<close>

theorem progress_percentage:
  assumes "0 \<le> p" and "points d = Has p"
  shows "xp_percent (points d) = p mod 100 \<and> 0 \<le> p mod 100 \<and> p mod 100 \<le> 99 \<and>
         xp_bar (show_state d s) = assign (num_str (p mod 100) @ lit ''%'') (xp_bar s) \<and>
         barEl_width (renderState d n) = num_str (p mod 100) @ lit ''%'' \<and>
         barEl_text (renderState d n) = num_str (p mod 100) @ lit ''% to Next Level''"
proof -
  have pc: "xp_percent (points d) = p mod 100"
    using assms by (simp add: xp_percent_nonneg)
  have range: "0 \<le> p mod 100 \<and> p mod 100 \<le> 99"
    by simp
  have bar: "xp_bar (show_state d s) = assign (num_str (p mod 100) @ lit ''%'') (xp_bar s)"
    by (cases "xp_bar s") (simp_all add: show_state_view pc style_width_percent assign_def)
  have ng: "pct (points d) = num_str (p mod 100)"
    using assms by (simp add: pct_def js_rem_nonneg)
  show ?thesis
    using pc range bar ng by (simp add: renderState_def style_width_percent)
qed

theorem progress_percentage_witness:
  "(0::int) \<le> 145 \<and> points sample_progress = Has 145 \<and>
   xp_percent (points sample_progress) = 45 \<and>
   xp_bar (show_state sample_progress sample_page) = Some (lit ''45%'') \<and>
   barEl_width (renderState sample_progress sample_ng_page) = lit ''45%'' \<and>
   barEl_text (renderState sample_progress sample_ng_page) = lit ''45% to Next Level''"
proof -
  have p: "points sample_progress = Has 145"
    by (simp add: sample_progress_def)
  have n: "num_str 45 = lit ''45''"
    by code_simp
  have x: "xp_bar sample_page = Some (lit ''0%'')"
    by (simp add: sample_page_def)
  show ?thesis
    using progress_percentage [of 145 sample_progress sample_page sample_ng_page] p n x
    by (simp add: assign_def lit_def)
qed

section \<open>Coach chat\<close>

lemma trim_blank:
  assumes "\<forall>c\<in>set v. js_whitespace c"
  shows "trim v = []"
proof -
  have d: "dropWhile js_whitespace v = []"
    using assms by simp
  show ?thesis
    by (simp only: trim_def d rev.simps dropWhile.simps)
qed

text \<open>
  C10. A coach send whose input is empty or holds only whitespace does nothing at all:
  the page after the handler is the page before it, so no message is appended, no
  request is sent and the status line keeps its text.
\<close>

theorem blank_coach_send_is_noop:
  assumes "\<forall>c \<in> set (nullish (coach_input s) []). js_whitespace c"
  shows "coach_send s = s \<and> coach_feed (coach_send s) = coach_feed s \<and>
         requests (coach_send s) = requests s \<and> coach_status (coach_send s) = coach_status s"
proof -
  have "trim (nullish (coach_input s) []) = []"
    using assms by (rule trim_blank)
  then have "coach_send s = s"
    by (simp add: coach_send_def truthy_str_def)
  then show ?thesis by simp
qed

theorem blank_coach_send_is_noop_witness:
  "coach_send (sample_page\<lparr>coach_input := Some [32, 9, 160]\<rparr>) = sample_page\<lparr>coach_input := Some [32, 9, 160]\<rparr>"
proof -
  have "\<forall>c \<in> set (nullish (coach_input (sample_page\<lparr>coach_input := Some [32, 9, 160]\<rparr>)) []). js_whitespace c"
    by (simp add: nullish_def js_whitespace_def)
  from blank_coach_send_is_noop [OF this] show ?thesis by simp
qed

lemma push_found:
  "coach_feed s = Some f \<Longrightarrow>
   push r t s = s\<lparr>coach_feed := Some (f @ [message r t]),
                  timeline := timeline s @ [Appended (message r t)]\<rparr>"
  by (simp add: push_def)

lemma push_frame:
  "coach_status (push r t s) = coach_status s"
  "coach_input (push r t s) = coach_input s"
  "requests (push r t s) = requests s"
  "quest_modal (push r t s) = quest_modal s"
  "quest_prompt (push r t s) = quest_prompt s"
  by (simp_all add: push_def split: option.splits)

text \<open>The text of the coach message with which the handler answers a response.\<close>

lemma coach_send_then_found:
  assumes "coach_feed u = Some g"
  shows "coach_send_then r u =
     u\<lparr>coach_feed := Some (g @ [message assistant
          (case r of
             Rejected \<Rightarrow> lit ''I hit a snag. Try again.''
           | Got ok None \<Rightarrow> lit ''I hit a snag. Try again.''
           | Got ok (Some j) \<Rightarrow>
               (case reply j of
                  None \<Rightarrow> lit ''Sorry, no reply.''
                | Some t \<Rightarrow> if t = [] then lit ''Sorry, no reply.'' else t))]),
        timeline := timeline u @ [Appended (message assistant
          (case r of
             Rejected \<Rightarrow> lit ''I hit a snag. Try again.''
           | Got ok None \<Rightarrow> lit ''I hit a snag. Try again.''
           | Got ok (Some j) \<Rightarrow>
               (case reply j of
                  None \<Rightarrow> lit ''Sorry, no reply.''
                | Some t \<Rightarrow> if t = [] then lit ''Sorry, no reply.'' else t)))],
        coach_status := assign [] (coach_status u)\<rparr>"
  using assms
  by (simp add: coach_send_then_def push_found Let_def or_else_def truthy_str_def
      split: fetched.splits option.splits)

lemma coach_send_found:
  assumes "coach_feed s = Some f" and "coach_input s = Some v" and "coach_status s = Some st"
    and "trim v \<noteq> []"
  shows "coach_send s =
     s\<lparr>coach_feed := Some (f @ [message user (trim v)]),
       coach_status := Some thinking, coach_input := Some [],
       requests := requests s @ [POST (lit ''/coach/chat'') (Chat_text (trim v))],
       timeline := timeline s @ [Appended (message user (trim v)),
                                 Sent (POST (lit ''/coach/chat'') (Chat_text (trim v)))]\<rparr>"
  using assms
  by (simp add: coach_send_def coach_compose_def push_found fetch_def nullish_def truthy_str_def
      Let_def)

text \<open>
  The order of the two calls shows on the page: sending first and appending afterwards
  leaves another timeline.
\<close>

lemma coach_order_matters:
  assumes "coach_feed s = Some f"
  shows "timeline (fetch q (coach_compose t s)) = timeline s @ [Appended (message user t), Sent q]"
    and "timeline (coach_compose t (fetch q s)) = timeline s @ [Sent q, Appended (message user t)]"
    and "fetch q (coach_compose t s) \<noteq> coach_compose t (fetch q s)"
proof -
  show a: "timeline (fetch q (coach_compose t s)) = timeline s @ [Appended (message user t), Sent q]"
    using assms by (simp add: coach_compose_def push_found fetch_def)
  have "coach_feed (fetch q s) = Some f"
    using assms by (simp add: fetch_def)
  then show b: "timeline (coach_compose t (fetch q s)) = timeline s @ [Sent q, Appended (message user t)]"
    by (simp add: coach_compose_def push_found fetch_def)
  show "fetch q (coach_compose t s) \<noteq> coach_compose t (fetch q s)"
  proof
    assume "fetch q (coach_compose t s) = coach_compose t (fetch q s)"
    then have "timeline (fetch q (coach_compose t s)) = timeline (coach_compose t (fetch q s))"
      by simp
    with a b show False by simp
  qed
qed

text \<open>
  C6. A coach send of a message that is not blank: the handler appends the user's
  trimmed and escaped message to the feed and then sends one request carrying the
  trimmed text, in this order: in the timeline the message comes before the request.
  With the message it shows that the coach is thinking and empties the input. Whatever
  the response and whatever happened on the page meanwhile, handling it appends exactly
  one coach message to the feed: the reply when there is a non-empty one, otherwise one
  of the two fixed apologies; it clears the status line and sends nothing. When nothing
  else happens in between, the timeline of the send is the user's message, the request
  and the coach's message, in this order.
\<close>

theorem coach_send_sequence:
  assumes "coach_feed s = Some f" and "coach_input s = Some v" and "coach_status s = Some st"
    and "trim v \<noteq> []"
  shows "timeline (coach_send s) =
           timeline s @ [Appended (message user (trim v)),
                         Sent (POST (lit ''/coach/chat'') (Chat_text (trim v)))] \<and>
         message user (trim v) = lit ''<b>You:</b> '' @ escapeHtml (trim v) \<and>
         coach_feed (coach_send s) = Some (f @ [message user (trim v)]) \<and>
         coach_status (coach_send s) = Some thinking \<and>
         requests (coach_send s) = requests s @ [POST (lit ''/coach/chat'') (Chat_text (trim v))] \<and>
         (\<forall>r u g. coach_feed u = Some g \<longrightarrow>
            (\<exists>m. coach_feed (coach_send_then r u) = Some (g @ [lit ''<b>Coach:</b> '' @ escapeHtml m]) \<and>
                 timeline (coach_send_then r u) =
                   timeline u @ [Appended (lit ''<b>Coach:</b> '' @ escapeHtml m)] \<and>
                 m = (case r of
                        Rejected \<Rightarrow> lit ''I hit a snag. Try again.''
                      | Got ok None \<Rightarrow> lit ''I hit a snag. Try again.''
                      | Got ok (Some j) \<Rightarrow>
                          (case reply j of
                             None \<Rightarrow> lit ''Sorry, no reply.''
                           | Some t \<Rightarrow> if t = [] then lit ''Sorry, no reply.'' else t)) \<and>
                 coach_status (coach_send_then r u) = assign [] (coach_status u) \<and>
                 requests (coach_send_then r u) = requests u)) \<and>
         (\<forall>r. \<exists>m. timeline (coach_send_then r (coach_send s)) =
                   timeline s @ [Appended (message user (trim v)),
                                 Sent (POST (lit ''/coach/chat'') (Chat_text (trim v))),
                                 Appended (lit ''<b>Coach:</b> '' @ escapeHtml m)] \<and>
                 coach_status (coach_send_then r (coach_send s)) = Some [])"
proof -
  note sent = coach_send_found [OF assms]
  have msg: "message user (trim v) = lit ''<b>You:</b> '' @ escapeHtml (trim v)"
    by (simp add: message_def)
  have coach: "message assistant m = lit ''<b>Coach:</b> '' @ escapeHtml m" for m
    by (simp add: message_def)
  have answer: "\<exists>m. coach_feed (coach_send_then r u) = Some (g @ [lit ''<b>Coach:</b> '' @ escapeHtml m]) \<and>
                 timeline (coach_send_then r u) =
                   timeline u @ [Appended (lit ''<b>Coach:</b> '' @ escapeHtml m)] \<and>
                 m = (case r of
                        Rejected \<Rightarrow> lit ''I hit a snag. Try again.''
                      | Got ok None \<Rightarrow> lit ''I hit a snag. Try again.''
                      | Got ok (Some j) \<Rightarrow>
                          (case reply j of
                             None \<Rightarrow> lit ''Sorry, no reply.''
                           | Some t \<Rightarrow> if t = [] then lit ''Sorry, no reply.'' else t)) \<and>
                 coach_status (coach_send_then r u) = assign [] (coach_status u) \<and>
                 requests (coach_send_then r u) = requests u"
    if "coach_feed u = Some g" for r u g
    by (simp add: coach_send_then_found [OF that] coach)
  have whole: "\<exists>m. timeline (coach_send_then r (coach_send s)) =
                   timeline s @ [Appended (message user (trim v)),
                                 Sent (POST (lit ''/coach/chat'') (Chat_text (trim v))),
                                 Appended (lit ''<b>Coach:</b> '' @ escapeHtml m)] \<and>
                 coach_status (coach_send_then r (coach_send s)) = Some []" for r
  proof -
    have fd: "coach_feed (coach_send s) = Some (f @ [message user (trim v)])"
      by (simp add: sent)
    show ?thesis
      unfolding coach_send_then_found [OF fd]
      by (auto simp: coach sent assign_def)
  qed
  have one: "timeline (coach_send s) =
           timeline s @ [Appended (message user (trim v)),
                         Sent (POST (lit ''/coach/chat'') (Chat_text (trim v)))]"
    and two: "coach_feed (coach_send s) = Some (f @ [message user (trim v)])"
    and three: "coach_status (coach_send s) = Some thinking"
    and four: "requests (coach_send s) = requests s @ [POST (lit ''/coach/chat'') (Chat_text (trim v))]"
    by (simp_all add: sent)
  show ?thesis
    using one msg two three four answer whole by blast
qed

theorem coach_send_sequence_witness:
  "timeline (coach_send (sample_page\<lparr>coach_input := Some (lit '' Hi <coach> '')\<rparr>)) =
     [Appended (lit ''<b>You:</b> Hi &lt;coach&gt;''),
      Sent (POST (lit ''/coach/chat'') (Chat_text (lit ''Hi <coach>'')))] \<and>
   coach_feed (coach_send (sample_page\<lparr>coach_input := Some (lit '' Hi <coach> '')\<rparr>)) =
     Some [lit ''<b>You:</b> Hi &lt;coach&gt;'']"
proof -
  let ?s = "sample_page\<lparr>coach_input := Some (lit '' Hi <coach> '')\<rparr>"
  have f: "coach_feed ?s = Some []" and i: "coach_input ?s = Some (lit '' Hi <coach> '')"
    and st: "coach_status ?s = Some []" and q: "timeline ?s = []"
    by (simp_all add: sample_page_def)
  have t: "trim (lit '' Hi <coach> '') = lit ''Hi <coach>''"
    by code_simp
  have n: "trim (lit '' Hi <coach> '') \<noteq> []"
    by code_simp
  have e: "message user (lit ''Hi <coach>'') = lit ''<b>You:</b> Hi &lt;coach&gt;''"
    by code_simp
  note w = coach_send_sequence [OF f i st n]
  from w have a: "timeline (coach_send ?s) =
      timeline ?s @ [Appended (message user (trim (lit '' Hi <coach> ''))),
                     Sent (POST (lit ''/coach/chat'') (Chat_text (trim (lit '' Hi <coach> ''))))]"
    by blast
  from w have b: "coach_feed (coach_send ?s) = Some ([] @ [message user (trim (lit '' Hi <coach> ''))])"
    by blast
  show ?thesis
    unfolding a b t e q by simp
qed

section \<open>The quest session\<close>

lemma refresh_upd:
  "refresh s =
     s\<lparr>requests := requests s @ [GET (lit ''/get_state''), GET (lit ''/leaderboard'')],
       timeline := timeline s @ [Sent (GET (lit ''/get_state'')), Sent (GET (lit ''/leaderboard''))]\<rparr>"
  by (simp add: refresh_def loadState_def loadLeaderboard_def fetch_def)

lemma modal_missing_upd:
  "modal_missing s =
     s\<lparr>console := console s @ [lit ''[game] quest modal pieces missing''],
       alerts := alerts s @ [lit ''Quest UI is missing in HTML. Add the Quest Modal block with required IDs.'']\<rparr>"
  by (simp add: modal_missing_def alert_def console_log_def)

lemma loadState_then_quest:
  "quest_modal (loadState_then r s) = quest_modal s"
  "quest_prompt (loadState_then r s) = quest_prompt s"
  "currentQuest (loadState_then r s) = currentQuest s"
  "pills (loadState_then r s) = pills s"
  by (simp_all add: loadState_then_def console_log_def show_state_frame
      split: fetched.splits option.splits)

lemma loadLeaderboard_then_quest:
  "quest_modal (loadLeaderboard_then r s) = quest_modal s"
  "quest_prompt (loadLeaderboard_then r s) = quest_prompt s"
  "currentQuest (loadLeaderboard_then r s) = currentQuest s"
  "pills (loadLeaderboard_then r s) = pills s"
  by (simp_all add: loadLeaderboard_then_def console_log_def
      split: fetched.splits option.splits list.splits)

lemma completeTask_then_quest:
  "quest_modal (completeTask_then r s) = quest_modal s"
  "quest_prompt (completeTask_then r s) = quest_prompt s"
  "currentQuest (completeTask_then r s) = currentQuest s"
  "pills (completeTask_then r s) = pills s"
  by (simp_all add: completeTask_then_def console_log_def alert_def refresh_upd
      split: fetched.splits option.splits)

lemma score_quest_session:
  "quest_modal (score_quest s) = quest_modal s"
  "quest_prompt (score_quest s) = quest_prompt s"
  "currentQuest (score_quest s) = currentQuest s"
  "pills (score_quest s) = pills s"
  by (simp_all add: score_quest_def modal_missing_upd fetch_def)

lemma score_quest_then_session:
  "quest_modal (score_quest_then r s) = quest_modal s"
  "quest_prompt (score_quest_then r s) = quest_prompt s"
  "currentQuest (score_quest_then r s) = currentQuest s"
  "pills (score_quest_then r s) = pills s"
  by (simp_all add: score_quest_then_def score_failed_def console_log_def refresh_upd
      split: fetched.splits option.splits)

lemma coach_quest:
  "quest_modal (open_coach s) = quest_modal s"
  "quest_prompt (open_coach s) = quest_prompt s"
  "quest_modal (coach_close s) = quest_modal s"
  "quest_prompt (coach_close s) = quest_prompt s"
  "quest_modal (coach_send s) = quest_modal s"
  "quest_prompt (coach_send s) = quest_prompt s"
  "quest_modal (coach_send_then r s) = quest_modal s"
  "quest_prompt (coach_send_then r s) = quest_prompt s"
  by (simp_all add: open_coach_def coach_close_def coach_send_def coach_compose_def push_frame
      fetch_def coach_send_then_def Let_def split: fetched.splits option.splits)

lemma pill_click_quest:
  "quest_modal (pill_click i s) = quest_modal s"
  "quest_prompt (pill_click i s) = quest_prompt s"
  by (simp_all add: pill_click_def)

lemma openQuest_status:
  "spec_status (openQuest t s) = (if ensureModal s then Loading else spec_status s)"
  by (simp add: openQuest_def spec_status_def fetch_def modal_missing_upd)

lemma close_quest_status: "spec_status (close_quest s) = Idle"
  by (cases "quest_modal s") (simp_all add: close_quest_def spec_status_def assign_def lit_def)

lemma spec_status_Idle_iff:
  "(spec_status s = Idle) = (quest_modal s \<noteq> Some (lit ''block''))"
  by (simp add: spec_status_def)

lemma openQuest_then_modal:
  "quest_modal (openQuest_then r s) = quest_modal s"
  by (simp add: openQuest_then_def console_log_def split: fetched.splits)

lemma openQuest_then_idle:
  "(spec_status (openQuest_then r s) = Idle) = (spec_status s = Idle)"
  by (simp only: spec_status_Idle_iff openQuest_then_modal)

lemma status_kept:
  "quest_modal s' = quest_modal s \<Longrightarrow> quest_prompt s' = quest_prompt s \<Longrightarrow>
   spec_status s' = spec_status s"
  by (simp add: spec_status_def)

lemma fallback_prompt_facts:
  "fallback_prompt \<noteq> []" "fallback_prompt \<noteq> loading_prompt"
  by (simp_all add: fallback_prompt_def loading_prompt_def lit_def)

lemma score_quest_requests:
  "requests (score_quest s) =
     (if ensureModal s
      then requests s @ [POST (lit ''/quest/score'')
             (Answer (type_name (qtype (currentQuest s))) (nullish (quest_text s) [])
                (choice (currentQuest s)))]
      else requests s)"
  by (simp add: score_quest_def modal_missing_upd fetch_def)

lemma openQuest_then_prompt:
  "quest_prompt (openQuest_then r s) =
     assign (case r of Rejected \<Rightarrow> fallback_prompt | Got ok p \<Rightarrow> or_else p fallback_prompt)
       (quest_prompt s)"
  by (simp add: openQuest_then_def console_log_def split: fetched.splits)

lemma openQuest_then_no_scenario:
  "no_scenario r \<Longrightarrow> quest_prompt (openQuest_then r s) = assign fallback_prompt (quest_prompt s)"
  by (auto simp: openQuest_then_prompt no_scenario_def or_else_def truthy_str_def
      split: fetched.splits option.splits if_splits)

lemma openQuest_then_frame:
  "currentQuest (openQuest_then r s) = currentQuest s"
  "alerts (openQuest_then r s) = alerts s"
  "requests (openQuest_then r s) = requests s"
  "pills (openQuest_then r s) = pills s"
  by (simp_all add: openQuest_then_def console_log_def split: fetched.splits)

lemma openQuest_opened:
  assumes "ensureModal s"
  shows "quest_modal (openQuest t s) = Some (lit ''block'')"
    and "quest_prompt (openQuest t s) = Some loading_prompt"
    and "currentQuest (openQuest t s) = \<lparr>qtype = t, choice = []\<rparr>"
    and "alerts (openQuest t s) = alerts s"
    and "requests (openQuest t s) = requests s @ [POST (lit ''/quest/start'') (Quest_type (type_name t))]"
  using assms by (simp_all add: openQuest_def fetch_def)

lemma or_else_nonempty: "d \<noteq> [] \<Longrightarrow> or_else p d \<noteq> []"
  by (simp add: or_else_def truthy_str_def split: option.splits)

lemma openQuest_then_status:
  assumes "spec_status s \<noteq> Idle"
  shows "spec_status (openQuest_then r s) = spec_status s \<or>
         spec_status (openQuest_then r s) =
           (if (case r of Rejected \<Rightarrow> fallback_prompt | Got ok p \<Rightarrow> or_else p fallback_prompt)
               = loading_prompt
            then Loading else Active)"
proof -
  from assms have m: "quest_modal s = Some (lit ''block'')"
    by (simp add: spec_status_def split: if_splits)
  show ?thesis
  proof (cases "quest_prompt s")
    case None
    then show ?thesis
      using m by (simp add: spec_status_def openQuest_then_modal openQuest_then_prompt assign_def)
  next
    case (Some x)
    then show ?thesis
      using m by (simp add: spec_status_def openQuest_then_modal openQuest_then_prompt assign_def)
  qed
qed

lemma openQuest_then_loading:
  assumes "spec_status s = Loading"
  shows "spec_status (openQuest_then r s) =
           (if (case r of Rejected \<Rightarrow> fallback_prompt | Got ok p \<Rightarrow> or_else p fallback_prompt)
               = loading_prompt
            then Loading else Active)"
proof -
  from assms have "quest_modal s = Some (lit ''block'')" and "quest_prompt s = Some loading_prompt"
    by (simp_all add: spec_status_def split: if_splits)
  then show ?thesis
    by (simp add: spec_status_def openQuest_then_modal openQuest_then_prompt assign_def)
qed

text \<open>
  C4, as the script has it. Whatever the scenario request does, \<open>openQuest\<close> goes on:
  the modal stays displayed, no alert is raised and the prompt shown is never empty.
  The prompt is the one the body carries when it is not empty, whether or not the
  response has a success status, which the script does not read; otherwise (the request
  is rejected, the body is not JSON or is \<open>null\<close>, or it carries no prompt or an empty
  one) it is the fixed text \<open>"Write your answer below."\<close>, and the session is then
  active; with a prompt of the body the session is active too, unless that prompt is
  the placeholder text itself. The same holds when the response arrives on any later
  page that is still loading.
\<close>

theorem scenario_failure_degrades:
  assumes "ensureModal s"
  shows "quest_modal (openQuest_then r (openQuest t s)) = Some (lit ''block'') \<and>
         quest_prompt (openQuest_then r (openQuest t s)) =
           Some (case r of
                   Rejected \<Rightarrow> fallback_prompt
                 | Got ok None \<Rightarrow> fallback_prompt
                 | Got ok (Some x) \<Rightarrow> if x = [] then fallback_prompt else x) \<and>
         (\<exists>p. quest_prompt (openQuest_then r (openQuest t s)) = Some p \<and> p \<noteq> []) \<and>
         alerts (openQuest_then r (openQuest t s)) = alerts s \<and>
         spec_status (openQuest t s) = Loading \<and>
         spec_status (openQuest_then r (openQuest t s)) =
           (if (case r of Rejected \<Rightarrow> fallback_prompt | Got ok p \<Rightarrow> or_else p fallback_prompt)
               = loading_prompt
            then Loading else Active) \<and>
         fallback_prompt = lit ''Write your answer below.'' \<and>
         (no_scenario r \<longrightarrow>
            quest_prompt (openQuest_then r (openQuest t s)) = Some fallback_prompt \<and>
            spec_status (openQuest_then r (openQuest t s)) = Active) \<and>
         (\<forall>u. no_scenario r \<and> spec_status u = Loading \<longrightarrow>
              spec_status (openQuest_then r u) = Active \<and>
              quest_prompt (openQuest_then r u) = Some fallback_prompt)"
proof -
  let ?o = "openQuest t s"
  let ?shown = "case r of
                   Rejected \<Rightarrow> fallback_prompt
                 | Got ok None \<Rightarrow> fallback_prompt
                 | Got ok (Some x) \<Rightarrow> if x = [] then fallback_prompt else x"
  have modal: "quest_modal (openQuest_then r ?o) = Some (lit ''block'')"
    using assms by (simp add: openQuest_then_modal openQuest_opened)
  have shown: "quest_prompt (openQuest_then r ?o) = Some ?shown"
    using assms
    by (simp add: openQuest_then_prompt openQuest_opened assign_def or_else_def truthy_str_def
        split: fetched.splits option.splits)
  have "?shown \<noteq> []"
    by (simp add: fallback_prompt_facts split: fetched.splits option.splits)
  with shown have any: "\<exists>p. quest_prompt (openQuest_then r ?o) = Some p \<and> p \<noteq> []"
    by simp
  have quiet: "alerts (openQuest_then r ?o) = alerts s"
    using assms by (simp add: openQuest_then_frame openQuest_opened)
  have loading: "spec_status ?o = Loading"
    using assms by (simp add: openQuest_status)
  note status = openQuest_then_loading [OF loading, of r]
  have degraded: "quest_prompt (openQuest_then r ?o) = Some fallback_prompt \<and>
                  spec_status (openQuest_then r ?o) = Active" if "no_scenario r"
  proof -
    have "quest_prompt (openQuest_then r ?o) = Some fallback_prompt"
      using assms that by (simp add: openQuest_then_no_scenario openQuest_opened assign_def)
    with modal show ?thesis
      by (simp add: spec_status_def fallback_prompt_facts)
  qed
  have later: "spec_status (openQuest_then r u) = Active \<and>
               quest_prompt (openQuest_then r u) = Some fallback_prompt"
    if "no_scenario r \<and> spec_status u = Loading" for u
  proof -
    from that have "quest_modal u = Some (lit ''block'')" and "quest_prompt u = Some loading_prompt"
      by (simp_all add: spec_status_def split: if_splits)
    then show ?thesis
      using that
      by (simp add: spec_status_def openQuest_then_modal openQuest_then_no_scenario assign_def
          fallback_prompt_facts)
  qed
  show ?thesis
    using modal shown any quiet loading status degraded later fallback_prompt_def by blast
qed

theorem scenario_failure_degrades_witness:
  "ensureModal sample_page \<and> no_scenario Rejected \<and>
   quest_modal (run [Start_quest followup, Scenario Rejected] sample_page) = Some (lit ''block'') \<and>
   quest_prompt (run [Start_quest followup, Scenario Rejected] sample_page) = Some (lit ''Write your answer below.'') \<and>
   spec_status (run [Start_quest followup, Scenario Rejected] sample_page) = Active"
proof -
  have e: "ensureModal sample_page"
    by (simp add: ensureModal_def sample_page_def)
  have n: "no_scenario Rejected"
    by (simp add: no_scenario_def)
  note w = scenario_failure_degrades [OF e, of Rejected followup]
  from w have m: "quest_modal (openQuest_then Rejected (openQuest followup sample_page)) = Some (lit ''block'')"
    by blast
  from w n have p: "quest_prompt (openQuest_then Rejected (openQuest followup sample_page)) = Some fallback_prompt"
    and a: "spec_status (openQuest_then Rejected (openQuest followup sample_page)) = Active"
    by blast+
  show ?thesis
    using e n m p a by (simp add: run_def fallback_prompt_def)
qed

text \<open>
  C4 as stated fails: a scenario request that the server refuses with a non-success
  status and a body carrying a prompt has failed, and the prompt shown is the server's
  text, not the fixed one.
\<close>

theorem refused_scenario_counterexample:
  "quest_prompt (run [Start_quest reciprocity, Scenario (Got False (Some (lit ''Offer help.'')))]
                   sample_page) = Some (lit ''Offer help.'') \<and>
   lit ''Offer help.'' \<noteq> fallback_prompt \<and>
   spec_status (run [Start_quest reciprocity, Scenario (Got False (Some (lit ''Offer help.'')))]
                  sample_page) = Active"
  by code_simp

lemma step_status:
  "spec_status (step e s) = spec_status s \<or>
   (\<exists>t. e = Start_quest t \<and> spec_status (step e s) = Loading) \<or>
   (e = Close_quest \<and> spec_status (step e s) = Idle) \<or>
   (\<exists>r. e = Scenario r \<and> spec_status s \<noteq> Idle \<and>
        spec_status (step e s) =
          (if (case r of Rejected \<Rightarrow> fallback_prompt | Got ok p \<Rightarrow> or_else p fallback_prompt)
              = loading_prompt
           then Loading else Active))"
proof (cases e)
  case (Start_quest t)
  then show ?thesis by (simp add: openQuest_status)
next
  case Close_quest
  then show ?thesis by (simp add: close_quest_status)
next
  case (Scenario r)
  show ?thesis
  proof (cases "spec_status s = Idle")
    case True
    with Scenario show ?thesis by (simp add: openQuest_then_idle)
  next
    case False
    from openQuest_then_status [OF False, of r] Scenario False show ?thesis
      by auto
  qed
qed (auto intro!: status_kept simp: pill_click_quest score_quest_session score_quest_then_session
      coach_quest completeTask_then_quest loadState_then_quest loadLeaderboard_then_quest
      completeTask_def fetch_def)

text \<open>
  C3, as the script has it. One event changes the status only in these ways:
  \<open>openQuest\<close> moves any status to loading (when the modal's elements exist; otherwise
  it alerts and the status stays); the close button moves any status to idle; a scenario
  response that arrives while the modal is displayed makes the session active, unless
  the prompt it brings is the placeholder text itself, which shows as loading. So a
  loading session becomes active on every scenario response but that one, and on every
  rejected request. Clicking the score button and receiving the score never
  change the status or \<open>currentQuest\<close>. The score handler does not look at the status:
  whenever the modal's elements exist it sends one \<open>/quest/score\<close> request with the type
  and choice of \<open>currentQuest\<close> and the draft text.
\<close>

theorem quest_status_transitions:
  "(spec_status (step e s) = spec_status s \<or>
    (\<exists>t. e = Start_quest t \<and> spec_status (step e s) = Loading) \<or>
    (e = Close_quest \<and> spec_status (step e s) = Idle) \<or>
    (\<exists>r. e = Scenario r \<and> spec_status s \<noteq> Idle \<and>
         spec_status (step e s) =
           (if (case r of Rejected \<Rightarrow> fallback_prompt | Got ok p \<Rightarrow> or_else p fallback_prompt)
               = loading_prompt
            then Loading else Active))) \<and>
   (ensureModal s \<longrightarrow> spec_status (step (Start_quest t) s) = Loading) \<and>
   (\<not> ensureModal s \<longrightarrow> spec_status (step (Start_quest t) s) = spec_status s) \<and>
   spec_status (step Close_quest s) = Idle \<and>
   (spec_status s = Loading \<longrightarrow>
      spec_status (step (Scenario r') s) =
        (if (case r' of Rejected \<Rightarrow> fallback_prompt | Got ok p \<Rightarrow> or_else p fallback_prompt)
            = loading_prompt
         then Loading else Active) \<and>
      spec_status (step (Scenario Rejected) s) = Active) \<and>
   spec_status (score_quest s) = spec_status s \<and>
   currentQuest (score_quest s) = currentQuest s \<and>
   spec_status (score_quest_then r s) = spec_status s \<and>
   currentQuest (score_quest_then r s) = currentQuest s \<and>
   (ensureModal s \<longrightarrow>
      requests (score_quest s) =
        requests s @ [POST (lit ''/quest/score'')
          (Answer (type_name (qtype (currentQuest s))) (nullish (quest_text s) [])
             (choice (currentQuest s)))])"
proof -
  have click: "spec_status (score_quest s) = spec_status s"
    by (rule status_kept) (simp_all add: score_quest_session)
  have answer: "spec_status (score_quest_then r s) = spec_status s"
    by (rule status_kept) (simp_all add: score_quest_then_session)
  have forward: "spec_status (step (Scenario r') s) =
        (if (case r' of Rejected \<Rightarrow> fallback_prompt | Got ok p \<Rightarrow> or_else p fallback_prompt)
            = loading_prompt
         then Loading else Active) \<and>
      spec_status (step (Scenario Rejected) s) = Active" if "spec_status s = Loading"
    using openQuest_then_loading [OF that, of r'] openQuest_then_loading [OF that, of Rejected]
    by (simp add: fallback_prompt_facts)
  show ?thesis
    using step_status [of e s] click answer forward
    by (simp add: score_quest_session score_quest_then_session score_quest_requests
        openQuest_status close_quest_status)
qed

theorem quest_status_transitions_witness:
  "ensureModal sample_page \<and> spec_status sample_page = Idle \<and>
   spec_status (score_quest sample_page) = Idle \<and>
   requests (score_quest sample_page) =
     [POST (lit ''/quest/score'') (Answer (lit ''outreach'') [] [])] \<and>
   spec_status (openQuest coffee sample_page) = Loading \<and>
   spec_status (step (Scenario Rejected) (openQuest coffee sample_page)) = Active"
proof -
  have e: "ensureModal sample_page"
    by (simp add: ensureModal_def sample_page_def)
  have i: "spec_status sample_page = Idle"
    by (simp add: spec_status_def sample_page_def lit_def)
  have f: "requests sample_page = []" "currentQuest sample_page = \<lparr>qtype = outreach, choice = []\<rparr>"
    "quest_text sample_page = Some []"
    by (simp_all add: sample_page_def)
  have l: "spec_status (openQuest coffee sample_page) = Loading"
    using e by (simp add: openQuest_status)
  have a: "spec_status (step (Scenario Rejected) (openQuest coffee sample_page)) = Active"
    using quest_status_transitions [of Close_quest "openQuest coffee sample_page" coffee Rejected Rejected] l
    by blast
  show ?thesis
    using quest_status_transitions [of Score_quest sample_page coffee Rejected Rejected] e i f l a
    by (simp add: nullish_def)
qed

text \<open>
  C3 as stated fails: after a quest has been opened and closed, so that none is open,
  the score handler still sends a request for it; and a second \<open>openQuest\<close> takes an
  active session back to loading.
\<close>

theorem score_while_idle_counterexample:
  "spec_status (run [Start_quest coffee, Scenario Rejected, Close_quest] sample_page) = Idle \<and>
   requests (run [Start_quest coffee, Scenario Rejected, Close_quest] sample_page) =
     [POST (lit ''/quest/start'') (Quest_type (lit ''coffee''))] \<and>
   requests (run [Start_quest coffee, Scenario Rejected, Close_quest, Score_quest] sample_page) =
     [POST (lit ''/quest/start'') (Quest_type (lit ''coffee'')),
      POST (lit ''/quest/score'') (Answer (lit ''coffee'') [] [])] \<and>
   spec_status (run [Start_quest outreach, Scenario Rejected] sample_page) = Active \<and>
   spec_status (run [Start_quest outreach, Scenario Rejected, Start_quest coffee] sample_page) = Loading"
  by code_simp

section \<open>Follow-up choice\<close>

lemma press_nth:
  "j < length ps \<Longrightarrow>
   press i (enumerate 0 ps ! j) =
     (ps ! j)\<lparr>active := (j = i), aria_pressed := (if j = i then lit ''true'' else lit ''false'')\<rparr>"
  by (simp add: press_def nth_enumerate_eq)

lemma press_data_choice:
  "map (data_choice \<circ> press i) (enumerate n ps) = map data_choice ps"
  by (induction ps arbitrary: n) (simp_all add: press_def)

lemma pill_click_length: "length (pills (pill_click i s)) = length (pills s)"
  by (simp add: pill_click_def)

lemma pill_click_data_choice:
  "map data_choice (pills (pill_click i s)) = map data_choice (pills s)"
  by (simp add: pill_click_def press_data_choice)

lemma run_snoc: "run (es @ [e]) s = step e (run es s)"
  by (simp add: run_def)

lemma run_pills_kept:
  "length (pills (run (map Pill js) s)) = length (pills s) \<and>
   map data_choice (pills (run (map Pill js) s)) = map data_choice (pills s)"
proof (induction js rule: rev_induct)
  case Nil
  show ?case by (simp add: run_def)
next
  case (snoc j js)
  then show ?case
    by (simp add: run_snoc pill_click_length pill_click_data_choice)
qed

lemma pill_click_selected:
  assumes "b < length (pills s)"
  shows "choice (currentQuest (pill_click b s)) = or_else (data_choice (pills s ! b)) []"
    and "j < length (pills s) \<Longrightarrow> active (pills (pill_click b s) ! j) = (j = b)"
    and "j < length (pills s) \<Longrightarrow>
         aria_pressed (pills (pill_click b s) ! j) = (if j = b then lit ''true'' else lit ''false'')"
  using assms by (simp_all add: pill_click_def press_nth)

lemma one_active:
  assumes "b < length ps" and "\<And>j. j < length ps \<Longrightarrow> active (ps ! j) = (j = b)"
  shows "length (filter active ps) = 1"
proof -
  have "{i. i < length ps \<and> active (ps ! i)} = {b}"
    using assms by auto
  then show ?thesis
    by (simp add: length_filter_conv_card)
qed

text \<open>
  C8. After any sequence of clicks on follow-up pills that ends with a click on pill
  \<open>b\<close>, exactly one pill is marked active, it is \<open>b\<close> (and only \<open>b\<close> has
  \<open>aria-pressed\<close> true), and \<open>currentQuest.choice\<close> is the \<open>data-choice\<close> of \<open>b\<close> (the
  empty string when \<open>b\<close> has none). With no choice selected the score handler still
  sends its request, with an empty choice.
\<close>

theorem followup_choice_exclusive:
  assumes "b < length (pills s)" and "s' = run (map Pill (js @ [b])) s"
  shows "length (filter active (pills s')) = 1 \<and>
         (\<forall>j < length (pills s').
            active (pills s' ! j) = (j = b) \<and>
            aria_pressed (pills s' ! j) = (if j = b then lit ''true'' else lit ''false'')) \<and>
         length (pills s') = length (pills s) \<and>
         choice (currentQuest s') = or_else (data_choice (pills s ! b)) [] \<and>
         (\<forall>u. ensureModal u \<and> choice (currentQuest u) = [] \<longrightarrow>
            requests (score_quest u) =
              requests u @ [POST (lit ''/quest/score'')
                (Answer (type_name (qtype (currentQuest u))) (nullish (quest_text u) []) [])])"
proof -
  let ?m = "run (map Pill js) s"
  have s': "s' = pill_click b ?m"
    using assms(2) by (simp add: run_snoc)
  have len: "length (pills ?m) = length (pills s)"
    and dc: "map data_choice (pills ?m) = map data_choice (pills s)"
    using run_pills_kept [of js s] by simp_all
  have b: "b < length (pills ?m)"
    using assms(1) len by simp
  have len': "length (pills s') = length (pills s)"
    using s' len by (simp add: pill_click_length)
  have act: "active (pills s' ! j) = (j = b)" if "j < length (pills s')" for j
    using that b len len' s' by (simp add: pill_click_selected)
  have aria: "aria_pressed (pills s' ! j) = (if j = b then lit ''true'' else lit ''false'')"
    if "j < length (pills s')" for j
    using that b len len' s' by (simp add: pill_click_selected)
  have one: "length (filter active (pills s')) = 1"
    using assms(1) len' act by (intro one_active [of b]) simp_all
  have "data_choice (pills ?m ! b) = data_choice (pills s ! b)"
    using b assms(1) dc by (metis nth_map)
  then have ch: "choice (currentQuest s') = or_else (data_choice (pills s ! b)) []"
    using s' b by (simp add: pill_click_selected)
  have score: "requests (score_quest u) =
      requests u @ [POST (lit ''/quest/score'')
        (Answer (type_name (qtype (currentQuest u))) (nullish (quest_text u) []) [])]"
    if "ensureModal u \<and> choice (currentQuest u) = []" for u
    using that by (simp add: score_quest_def fetch_def)
  show ?thesis
    using one act aria len' ch score by blast
qed

theorem followup_choice_exclusive_witness:
  "length (filter active (pills (run [Pill 0, Pill 2] sample_page))) = 1 \<and>
   active (pills (run [Pill 0, Pill 2] sample_page) ! 2) \<and>
   choice (currentQuest (run [Pill 0, Pill 2] sample_page)) = lit ''Early next week''"
proof -
  have b: "2 < length (pills sample_page)"
    by (simp add: sample_page_def sample_pills_def)
  have r: "run [Pill 0, Pill 2] sample_page = run (map Pill ([0] @ [2])) sample_page"
    by simp
  have d: "or_else (data_choice (pills sample_page ! 2)) [] = lit ''Early next week''"
    by code_simp
  note w = followup_choice_exclusive [OF b r]
  from w have one: "length (filter active (pills (run [Pill 0, Pill 2] sample_page))) = 1"
    by blast
  from w have len: "length (pills (run [Pill 0, Pill 2] sample_page)) = length (pills sample_page)"
    by blast
  from w have "\<forall>j < length (pills (run [Pill 0, Pill 2] sample_page)).
      active (pills (run [Pill 0, Pill 2] sample_page) ! j) = (j = 2)"
    by blast
  then have two: "active (pills (run [Pill 0, Pill 2] sample_page) ! 2)"
    using b len by simp
  from w have ch: "choice (currentQuest (run [Pill 0, Pill 2] sample_page)) =
      or_else (data_choice (pills sample_page ! 2)) []"
    by blast
  show ?thesis
    using one two ch d by simp
qed

section \<open>Task completion\<close>





text \<open>
  C2, as the scripts have it. A failed completion leaves the state view as it was.
  When the server answers with a non-success status and a JSON object, one alert shows
  the object's \<open>error\<close> text if it is present and not empty, otherwise
  \<open>"Could not complete task."\<close>. When the request is rejected, or the body of a
  non-success response is \<open>null\<close>, gamescript.js writes one console line and
  networkinggamescript.js ends in an unhandled rejection: no message is shown.
\<close>

theorem completeTask_failure:
  "completeTask_then Rejected s = s\<lparr>console := console s @ [lit ''[game] completeTask error:'']\<rparr> \<and>
   completeTask_then (Got False None) s =
     s\<lparr>console := console s @ [lit ''[game] completeTask error:'']\<rparr> \<and>
   completeTask_then (Got False (Some d)) s =
     s\<lparr>alerts := alerts s @
        [case error d of None \<Rightarrow> lit ''Could not complete task.''
         | Some e \<Rightarrow> if e = [] then lit ''Could not complete task.'' else e]\<rparr> \<and>
   ng_completeTask_then Rejected n = n\<lparr>ng_uncaught := Suc (ng_uncaught n)\<rparr> \<and>
   ng_completeTask_then (Got False None) n = n\<lparr>ng_uncaught := Suc (ng_uncaught n)\<rparr> \<and>
   ng_completeTask_then (Got False (Some d)) n =
     n\<lparr>ng_alerts := ng_alerts n @
        [case error d of None \<Rightarrow> lit ''Could not complete task.''
         | Some e \<Rightarrow> if e = [] then lit ''Could not complete task.'' else e]\<rparr>"
  by (simp add: completeTask_then_def ng_completeTask_then_def console_log_def alert_def
      ng_uncaught_rejection_def or_else_def truthy_str_def split: option.splits)

theorem completeTask_failure_witness:
  "alerts (run [Complete (lit ''t1''),
       Completed_task (Got False (Some (sample_progress\<lparr>error := Some (lit ''Task already completed'')\<rparr>)))]
       sample_page) = [lit ''Task already completed''] \<and>
   points_el (run [Complete (lit ''t1''),
       Completed_task (Got False (Some (sample_progress\<lparr>error := Some (lit ''Task already completed'')\<rparr>)))]
       sample_page) = Some (lit ''0'')"
proof -
  let ?d = "sample_progress\<lparr>error := Some (lit ''Task already completed'')\<rparr>"
  have e: "error ?d = Some (lit ''Task already completed'')" "lit ''Task already completed'' \<noteq> []"
    by (simp_all add: lit_def)
  have p: "points_el sample_page = Some (lit ''0'')" "alerts sample_page = []"
    by (simp_all add: sample_page_def)
  have "completeTask_then (Got False (Some ?d)) s =
      s\<lparr>alerts := alerts s @ [lit ''Task already completed'']\<rparr>" for s
    using completeTask_failure [of s ?d] e by simp
  then show ?thesis
    using p by (simp add: run_def completeTask_def fetch_def)
qed

text \<open>
  C2 as stated fails: when the completion request is rejected, the page differs from
  the page before only by the request sent and one console line (gamescript.js) or by
  the unhandled rejection (networkinggamescript.js); no alert is raised.
\<close>

theorem completeTask_transport_failure_counterexample:
  "run [Complete (lit ''t1''), Completed_task Rejected] sample_page =
     sample_page\<lparr>requests := [POST (lit ''/complete_task'') (Task_id (lit ''t1''))],
                 console := [lit ''[game] completeTask error:''],
                 timeline := [Sent (POST (lit ''/complete_task'') (Task_id (lit ''t1'')))]\<rparr> \<and>
   alerts (run [Complete (lit ''t1''), Completed_task Rejected] sample_page) = [] \<and>
   ng_completeTask_then Rejected (ng_completeTask (lit ''t1'') sample_ng_page) =
     sample_ng_page\<lparr>ng_requests := [POST (lit ''/complete_task'') (Task_id (lit ''t1''))],
                    ng_uncaught := 1\<rparr>"
  by code_simp

section \<open>Scoring and badge labels\<close>


text \<open>
  What \<open>prettyBadge\<close> returns otherwise: an id of the table gets its label; an id
  that is neither in the table nor inherited gets its title-cased form, which has the
  length of the id and in which exactly the word characters after a word boundary are
  upper-cased.
\<close>

lemma BADGE_LABELS_truthy: "map_of BADGE_LABELS i = Some l \<Longrightarrow> truthy_str l"
  by (auto simp: BADGE_LABELS_def truthy_str_def split: if_splits)

lemma prettyBadge_curated: "map_of BADGE_LABELS i = Some l \<Longrightarrow> prettyBadge i = Text l"
  by (simp add: prettyBadge_def lookup_label_def BADGE_LABELS_truthy)

lemma prettyBadge_fallback:
  "map_of BADGE_LABELS i = None \<Longrightarrow> i \<notin> set Object_prototype \<Longrightarrow>
   prettyBadge i = Text (title_case i)"
  by (simp add: prettyBadge_def lookup_label_def)

lemma prettyBadge_examples:
  "prettyBadge (lit ''badge_first_connection'') = Text ([55357, 57072, 65039] @ lit '' First Contact'')"
  "prettyBadge (lit ''badge_custom_thing'') = Text (lit ''Badge Custom Thing'')"
  by code_simp+

lemma length_upcase_word_starts: "length (upcase_word_starts p cs) = length cs"
  by (induction cs arbitrary: p) simp_all

lemma length_title_case: "length (title_case i) = length i"
  by (simp add: title_case_def replace_underscores_def length_upcase_word_starts)

lemma upcase_word_starts_nth:
  "k < length cs \<Longrightarrow>
   upcase_word_starts p cs ! k =
     (if word_char (cs ! k) \<and> \<not> (if k = 0 then p else word_char (cs ! (k - 1)))
      then toUpperCase (cs ! k) else cs ! k)"
proof (induction cs arbitrary: p k)
  case Nil
  then show ?case by simp
next
  case (Cons c cs)
  show ?case
  proof (cases k)
    case 0
    then show ?thesis by simp
  next
    case (Suc m)
    with Cons.prems have "m < length cs" by simp
    from Cons.IH [OF this, of "word_char c"] Suc show ?thesis
      by (cases m) simp_all
  qed
qed

text \<open>
  C9 at a badge id that is not in the table but names a property every object
  inherits: \<open>prettyBadge("constructor")\<close> returns the inherited value, not the
  title-cased id \<open>"Constructor"\<close>.
\<close>

theorem prettyBadge_inherited_property:
  "map_of BADGE_LABELS (lit ''constructor'') = None \<and>
   prettyBadge (lit ''constructor'') = Inherited (lit ''constructor'') \<and>
   title_case (lit ''constructor'') = lit ''Constructor''"
  by code_simp

text \<open>
  The score handler on its other paths: a rejected request or a \<open>null\<close> body shows
  the fixed message \<open>"Could not score. Try again."\<close> and sends nothing; a body with
  \<open>earned\<close> shows the points, followed by the first tip when there is one.
\<close>

lemma score_quest_then_failed:
  "score_quest_then Rejected s =
     s\<lparr>console := console s @ [lit ''[game] /quest/score failed''],
       score_result := assign (lit ''Could not score. Try again.'') (score_result s)\<rparr>"
  "score_quest_then (Got ok None) s =
     s\<lparr>console := console s @ [lit ''[game] /quest/score failed''],
       score_result := assign (lit ''Could not score. Try again.'') (score_result s)\<rparr>"
  by (simp_all add: score_quest_then_def score_failed_def console_log_def)

lemma score_quest_then_scored:
  "score_quest_then (Got ok (Some j)) s =
     s\<lparr>score_result := assign (score_summary j) (score_result s),
       requests := requests s @ [GET (lit ''/get_state''), GET (lit ''/leaderboard'')],
       timeline := timeline s @ [Sent (GET (lit ''/get_state'')), Sent (GET (lit ''/leaderboard''))]\<rparr>"
  by (simp add: score_quest_then_def refresh_upd)

lemma score_summary_cases:
  "score_summary \<lparr>earned = Has n, tips = Some (t # ts)\<rparr> =
     lit ''+'' @ num_str n @ lit '' XP'' @ [32, 8226, 32] @ t"
  "score_summary \<lparr>earned = Has n, tips = Some []\<rparr> = lit ''+'' @ num_str n @ lit '' XP''"
  "score_summary \<lparr>earned = Has n, tips = None\<rparr> = lit ''+'' @ num_str n @ lit '' XP''"
  by (simp_all add: score_summary_def)

text \<open>
  C5 at a score request that the server refuses with a non-success status and a JSON
  object without \<open>earned\<close>: the handler does not read \<open>res.ok\<close>, shows
  \<open>"+undefined XP"\<close> as the result, logs nothing and refreshes state and leaderboard.
\<close>

theorem score_error_status_shown_as_points:
  "score_result
     (run [Start_quest outreach, Scenario (Got True (Some (lit ''Introduce yourself.''))),
           Score_quest, Scored (Got False (Some \<lparr>earned = Absent, tips = None\<rparr>))] sample_page) =
     Some (lit ''+undefined XP'') \<and>
   console
     (run [Start_quest outreach, Scenario (Got True (Some (lit ''Introduce yourself.''))),
           Score_quest, Scored (Got False (Some \<lparr>earned = Absent, tips = None\<rparr>))] sample_page) = [] \<and>
   requests
     (run [Start_quest outreach, Scenario (Got True (Some (lit ''Introduce yourself.''))),
           Score_quest, Scored (Got False (Some \<lparr>earned = Absent, tips = None\<rparr>))] sample_page) =
     [POST (lit ''/quest/start'') (Quest_type (lit ''outreach'')),
      POST (lit ''/quest/score'') (Answer (lit ''outreach'') [] []),
      GET (lit ''/get_state''), GET (lit ''/leaderboard'')]"
  by code_simp

end
